theory Spec2Isabelle
  imports Complex_Main "HOL-Library.Multiset" "HOL-Library.Product_Lexorder"
begin

section \<open>Numbers\<close>

text \<open>
  A JavaScript number is an IEEE 754 double: NaN, plus or minus Infinity, or a finite
  value \<open>m * 2 ^ e\<close> with \<open>\<bar>m\<bar> < 2 ^ 53\<close> and \<open>- 1074 \<le> e \<le> 971\<close>. The finite
  doubles are a type of their own, ordered by their values. The sign of zero is not
  kept: it is lost when a number is printed for the database.
\<close>

definition is_double :: "real \<Rightarrow> bool" where
  "is_double x \<longleftrightarrow>
     (\<exists>m e. \<bar>m\<bar> < 2 ^ 53 \<and> - 1074 \<le> e \<and> e \<le> 971 \<and> x = real_of_int m * 2 powi e)"

typedef double = "{x. is_double x}"
  morphisms valof dbl
proof -
  have "is_double 0"
    unfolding is_double_def by (rule exI[of _ 0], rule exI[of _ 0]) simp
  then show ?thesis by blast
qed

instantiation double :: linorder
begin

definition less_eq_double :: "double \<Rightarrow> double \<Rightarrow> bool" where
  "a \<le> b \<longleftrightarrow> valof a \<le> valof b"

definition less_double :: "double \<Rightarrow> double \<Rightarrow> bool" where
  "a < b \<longleftrightarrow> valof a < valof b"

instance
  by standard (auto simp: less_eq_double_def less_double_def valof_inject)

end

instantiation double :: zero
begin

definition zero_double :: double where
  "0 = dbl 0"

instance ..

end

datatype number = NaN | Infinity | NegInfinity | Finite (the_finite: double)

text \<open>
  The integer nearest to \<open>i\<close> that is a double, ties to the even significand;
  \<open>None\<close> when that is beyond the largest double, where JavaScript has Infinity.
\<close>

fun bits :: "nat \<Rightarrow> nat" where
  "bits n = (if n = 0 then 0 else Suc (bits (n div 2)))"

declare bits.simps [simp del]

definition to_double :: "int \<Rightarrow> int option" where
  "to_double i =
     (let a = nat \<bar>i\<bar>; k = bits a in
      if k \<le> 53 then Some i
      else (let sh = k - 53; q = a div 2 ^ sh; r = a mod 2 ^ sh; half = 2 ^ (sh - 1);
                q' = (if half < r \<or> (r = half \<and> odd q) then q + 1 else q);
                v = q' * 2 ^ sh
            in if 2 ^ 1024 \<le> v then None else Some (sgn i * int v)))"

text \<open>The range of a signed 64-bit integer, the integers of SQLite.\<close>

definition int64 :: "int \<Rightarrow> bool" where
  "int64 n \<longleftrightarrow> - (2 ^ 63) \<le> n \<and> n < 2 ^ 63"

section \<open>Data model\<close>

text \<open>
  The flight-data endpoint (\<^verbatim>\<open>src/app/api/flightdata/route.ts\<close>) receives one JSON
  document per POST, writes it as one row of the D1 table \<^verbatim>\<open>unity_data\<close>
  (\<^verbatim>\<open>schema.sql\<close>) and serves three SELECT queries on GET.

  The TypeScript interface \<^verbatim>\<open>UnityData\<close> is erased at run time: what
  \<^verbatim>\<open>request.json()\<close> returns may lack any property or hold \<^verbatim>\<open>null\<close> for
  it. A property read is therefore one of three things. Values of another JSON type than
  the declared one (a number where a string is declared, say) are outside this model.
  A string is a list of characters with codes below 256.
\<close>

datatype 'a field = Absent | Null | Val (unVal: 'a)

text \<open>\<^verbatim>\<open>velocity: { x, y, z }\<close>\<close>

record 'n vec =
  vel_x :: 'n
  vel_y :: 'n
  vel_z :: 'n

text \<open>
  The fields of \<^verbatim>\<open>UnityData\<close> (\<^verbatim>\<open>types/index.ts\<close>), in the order of the
  interface, which is also the column order of the INSERT statement. The record is
  polymorphic in the type of text fields, number fields and the velocity so that the
  same shape serves the stored columns, the run-time JSON value and the bound statement.
\<close>

record ('s, 'n, 'v) unity_data =
  deviceId :: 's
  formattedTime :: 's
  timestamp :: 'n
  latitude :: 'n
  longitude :: 'n
  pitch :: 'n
  yaw :: 'n
  roll :: 'n
  speed :: 'n
  velocity :: 'v
  horizontalSpeed :: 'n
  verticalSpeed :: 'n
  flightDirection :: 'n
  groundDistance :: 'n

text \<open>A complete sample: every text a string, every number a finite double.\<close>

type_synonym UnityData = "(string, double, double vec) unity_data"

text \<open>
  The value \<^verbatim>\<open>data\<close> that \<^verbatim>\<open>request.json()\<close> yields for a JSON object. Its
  numbers are JavaScript numbers: parsing has rounded every number of the document to
  the nearest double (\<open>2 ^ 53 + 1\<close> arrives as \<open>2 ^ 53\<close>) and has turned a number
  beyond the largest double into Infinity (\<^verbatim>\<open>1e309\<close> arrives as \<open>Infinity\<close>).
\<close>

type_synonym UnityJson = "(string field, number field, number field vec field) unity_data"

text \<open>The sixteen values handed to \<^verbatim>\<open>stmt.bind(...)\<close>, velocity flattened.\<close>

type_synonym bound = "(string field, number field, number field vec) unity_data"

definition to_json :: "UnityData \<Rightarrow> UnityJson" where
  "to_json s =
     \<lparr>deviceId = Val (deviceId s), formattedTime = Val (formattedTime s),
      timestamp = Val (Finite (timestamp s)), latitude = Val (Finite (latitude s)),
      longitude = Val (Finite (longitude s)), pitch = Val (Finite (pitch s)),
      yaw = Val (Finite (yaw s)), roll = Val (Finite (roll s)),
      speed = Val (Finite (speed s)),
      velocity = Val \<lparr>vel_x = Val (Finite (vel_x (velocity s))),
                       vel_y = Val (Finite (vel_y (velocity s))),
                       vel_z = Val (Finite (vel_z (velocity s)))\<rparr>,
      horizontalSpeed = Val (Finite (horizontalSpeed s)),
      verticalSpeed = Val (Finite (verticalSpeed s)),
      flightDirection = Val (Finite (flightDirection s)),
      groundDistance = Val (Finite (groundDistance s))\<rparr>"

text \<open>
  JavaScript truthiness, as used by \<^verbatim>\<open>!data.deviceId\<close> and \<^verbatim>\<open>!data.timestamp\<close>:
  \<^verbatim>\<open>undefined\<close>, \<^verbatim>\<open>null\<close>, the empty string, the number 0 and NaN are falsy.
\<close>

fun truthy_str :: "string field \<Rightarrow> bool" where
  "truthy_str (Val s) = (s \<noteq> [])"
| "truthy_str _ = False"

fun truthy_num :: "number field \<Rightarrow> bool" where
  "truthy_num (Val (Finite n)) = (n \<noteq> 0)"
| "truthy_num (Val NaN) = False"
| "truthy_num (Val _) = True"
| "truthy_num _ = False"

section \<open>The D1 database\<close>

text \<open>
  One row of \<^verbatim>\<open>unity_data\<close>: the AUTOINCREMENT key \<^verbatim>\<open>id\<close>, the sixteen sample
  columns (all NOT NULL; \<^verbatim>\<open>velocity_x/y/z\<close> are the components of
  \<^verbatim>\<open>velocity\<close>), and \<^verbatim>\<open>created_at\<close>.
\<close>

record row =
  row_id :: nat
  sample :: UnityData
  created_at :: nat

datatype d1_call = StmtRun | DbBatch | StmtAll

text \<open>
  The database behind the binding \<^verbatim>\<open>env.DB\<close>: the table in rowid order, the
  AUTOINCREMENT counter, the value CURRENT_TIMESTAMP has for the next statement, and the
  statements executed so far (\<^verbatim>\<open>run\<close>, \<^verbatim>\<open>batch\<close>, \<^verbatim>\<open>all\<close>).
  The database is taken to be reachable: a statement fails only for a reason of its own
  (a value that cannot be bound, a violated constraint, a mismatched LIMIT, an empty
  batch).
\<close>

record d1 =
  rows :: "row list"
  sqlite_sequence :: nat
  clock :: nat
  calls :: "d1_call list"

datatype js_error =
  SyntaxError | TypeError | D1_TYPE_ERROR | D1_CONSTRAINT | D1_MISMATCH | D1_NO_STATEMENTS

definition logged :: "d1_call \<Rightarrow> d1 \<Rightarrow> d1" where
  "logged c db = db\<lparr>calls := calls db @ [c]\<rparr>"

text \<open>AUTOINCREMENT: one more than the largest rowid that ever existed in the table.\<close>

definition next_rowid :: "d1 \<Rightarrow> nat" where
  "next_rowid db = Suc (fold max (map row_id (rows db)) (sqlite_sequence db))"

text \<open>\<^verbatim>\<open>bind\<close> refuses \<^verbatim>\<open>undefined\<close>.\<close>

definition has_undefined :: "bound \<Rightarrow> bool" where
  "has_undefined b \<longleftrightarrow>
     deviceId b = Absent \<or> formattedTime b = Absent \<or> timestamp b = Absent \<or>
     latitude b = Absent \<or> longitude b = Absent \<or> pitch b = Absent \<or> yaw b = Absent \<or>
     roll b = Absent \<or> speed b = Absent \<or> vel_x (velocity b) = Absent \<or>
     vel_y (velocity b) = Absent \<or> vel_z (velocity b) = Absent \<or>
     horizontalSpeed b = Absent \<or> verticalSpeed b = Absent \<or>
     flightDirection b = Absent \<or> groundDistance b = Absent"

text \<open>
  The bound values travel to the database as JSON: \<^verbatim>\<open>null\<close> is SQL NULL, and so
  are NaN and plus or minus Infinity, which JSON prints as \<^verbatim>\<open>null\<close>.
\<close>

fun null_text :: "string field \<Rightarrow> bool" where
  "null_text Null = True"
| "null_text _ = False"

fun null_number :: "number field \<Rightarrow> bool" where
  "null_number (Val (Finite _)) = False"
| "null_number Absent = False"
| "null_number _ = True"

definition has_null :: "bound \<Rightarrow> bool" where
  "has_null b \<longleftrightarrow>
     null_text (deviceId b) \<or> null_text (formattedTime b) \<or> null_number (timestamp b) \<or>
     null_number (latitude b) \<or> null_number (longitude b) \<or> null_number (pitch b) \<or>
     null_number (yaw b) \<or> null_number (roll b) \<or> null_number (speed b) \<or>
     null_number (vel_x (velocity b)) \<or> null_number (vel_y (velocity b)) \<or>
     null_number (vel_z (velocity b)) \<or> null_number (horizontalSpeed b) \<or>
     null_number (verticalSpeed b) \<or> null_number (flightDirection b) \<or>
     null_number (groundDistance b)"

text \<open>The column values of the row an INSERT with these bound values creates.\<close>

definition column :: "number field \<Rightarrow> double" where
  "column f = the_finite (unVal f)"

definition stored :: "bound \<Rightarrow> UnityData" where
  "stored b =
     \<lparr>deviceId = unVal (deviceId b), formattedTime = unVal (formattedTime b),
      timestamp = column (timestamp b), latitude = column (latitude b),
      longitude = column (longitude b), pitch = column (pitch b), yaw = column (yaw b),
      roll = column (roll b), speed = column (speed b),
      velocity = \<lparr>vel_x = column (vel_x (velocity b)), vel_y = column (vel_y (velocity b)),
                   vel_z = column (vel_z (velocity b))\<rparr>,
      horizontalSpeed = column (horizontalSpeed b), verticalSpeed = column (verticalSpeed b),
      flightDirection = column (flightDirection b),
      groundDistance = column (groundDistance b)\<rparr>"

text \<open>
  One INSERT INTO unity_data: a NULL in any of the sixteen NOT NULL columns is a
  constraint violation and leaves the table as it was.
\<close>

definition exec_insert :: "bound \<Rightarrow> d1 \<Rightarrow> js_error + d1" where
  "exec_insert b db =
     (if has_null b then Inl D1_CONSTRAINT
      else Inr (db\<lparr>rows := rows db @
                         [\<lparr>row_id = next_rowid db, sample = stored b, created_at = clock db\<rparr>],
                     sqlite_sequence := next_rowid db\<rparr>))"

text \<open>\<^verbatim>\<open>stmt.run()\<close>\<close>

definition d1_run :: "bound \<Rightarrow> d1 \<Rightarrow> (js_error + unit) \<times> d1" where
  "d1_run b db =
     (case exec_insert b (logged StmtRun db) of
        Inl e \<Rightarrow> (Inl e, logged StmtRun db)
      | Inr db' \<Rightarrow> (Inr (), db'))"

text \<open>
  \<^verbatim>\<open>db.batch(statements)\<close>: D1 refuses an empty list of statements; otherwise it runs
  the statements in order inside one transaction, the first failing statement aborts the
  sequence and the transaction is rolled back.
\<close>

fun exec_all :: "bound list \<Rightarrow> d1 \<Rightarrow> js_error + d1" where
  "exec_all [] db = Inr db"
| "exec_all (b # bs) db =
     (case exec_insert b db of Inl e \<Rightarrow> Inl e | Inr db' \<Rightarrow> exec_all bs db')"

definition d1_batch :: "bound list \<Rightarrow> d1 \<Rightarrow> (js_error + unit) \<times> d1" where
  "d1_batch bs db =
     (if bs = [] then (Inl D1_NO_STATEMENTS, logged DbBatch db)
      else (case exec_all bs (logged DbBatch db) of
              Inl e \<Rightarrow> (Inl e, logged DbBatch db)
            | Inr db' \<Rightarrow> (Inr (), db')))"

text \<open>
  ORDER BY timestamp. The schema declares the indexes \<^verbatim>\<open>idx_timestamp\<close> and
  \<^verbatim>\<open>idx_device_timestamp\<close>, whose entries end in the rowid; the engine reads them
  forwards for ASC and backwards for DESC, so rows of equal timestamp come in rowid order
  for ASC and in reverse rowid order for DESC.
\<close>

definition order_key :: "row \<Rightarrow> double \<times> nat" where
  "order_key r = (timestamp (sample r), row_id r)"

definition order_by_timestamp_asc :: "row list \<Rightarrow> row list" where
  "order_by_timestamp_asc rs = sort_key order_key rs"

definition order_by_timestamp_desc :: "row list \<Rightarrow> row list" where
  "order_by_timestamp_desc rs = rev (sort_key order_key rs)"

text \<open>LIMIT n: a negative n means no upper bound on the number of rows.\<close>

definition sql_limit :: "int \<Rightarrow> 'a list \<Rightarrow> 'a list" where
  "sql_limit n xs = (if n < 0 then xs else take (nat n) xs)"

section \<open>UnityDataWriter\<close>

text \<open>
  The arguments of \<^verbatim>\<open>stmt.bind(data.deviceId, ..., data.groundDistance)\<close> are
  evaluated first: \<^verbatim>\<open>data.velocity.x\<close> throws a TypeError when \<^verbatim>\<open>velocity\<close> is
  missing or null. Then \<^verbatim>\<open>bind\<close> throws D1_TYPE_ERROR on an \<^verbatim>\<open>undefined\<close>
  argument.
\<close>

definition stmt_bind :: "UnityJson \<Rightarrow> js_error + bound" where
  "stmt_bind data =
     (case velocity data of
        Val v \<Rightarrow>
          (let b = \<lparr>deviceId = deviceId data, formattedTime = formattedTime data,
                    timestamp = timestamp data, latitude = latitude data,
                    longitude = longitude data, pitch = pitch data, yaw = yaw data,
                    roll = roll data, speed = speed data, velocity = v,
                    horizontalSpeed = horizontalSpeed data,
                    verticalSpeed = verticalSpeed data,
                    flightDirection = flightDirection data,
                    groundDistance = groundDistance data\<rparr>
           in if has_undefined b then Inl D1_TYPE_ERROR else Inr b)
      | _ \<Rightarrow> Inl TypeError)"

definition writeData :: "d1 \<Rightarrow> UnityJson \<Rightarrow> (js_error + unit) \<times> d1" where
  "writeData db data =
     (case stmt_bind data of
        Inl e \<Rightarrow> (Inl e, db)
      | Inr b \<Rightarrow> d1_run b db)"

text \<open>\<^verbatim>\<open>dataArray.map((data) => stmt.bind(...))\<close>: the first throwing element ends the map.\<close>

fun bind_each :: "UnityJson list \<Rightarrow> js_error + bound list" where
  "bind_each [] = Inr []"
| "bind_each (data # rest) =
     (case stmt_bind data of
        Inl e \<Rightarrow> Inl e
      | Inr b \<Rightarrow> (case bind_each rest of Inl e \<Rightarrow> Inl e | Inr bs \<Rightarrow> Inr (b # bs)))"

definition writeBatchData :: "d1 \<Rightarrow> UnityJson list \<Rightarrow> (js_error + unit) \<times> d1" where
  "writeBatchData db dataArray =
     (case bind_each dataArray of
        Inl e \<Rightarrow> (Inl e, db)
      | Inr statements \<Rightarrow> d1_batch statements db)"

text \<open>
  The three queries. The class is private to the module and GET is its only caller, so
  the numeric arguments are results of \<^verbatim>\<open>parseInt\<close>: an integer, or a number that
  is bound as NULL (\<open>None\<close>: NaN or plus or minus Infinity). LIMIT wants an integer of
  SQLite: LIMIT NULL and a LIMIT outside the signed 64-bit range are a datatype mismatch.
  A comparison with NULL selects no row.
\<close>

definition getLatestData :: "d1 \<Rightarrow> string \<Rightarrow> int option \<Rightarrow> (js_error + row list) \<times> d1" where
  "getLatestData db devId limit =
     (case limit of
        None \<Rightarrow> (Inl D1_MISMATCH, logged StmtAll db)
      | Some n \<Rightarrow>
          if int64 n
          then (Inr (sql_limit n (order_by_timestamp_desc
                       (filter (\<lambda>r. deviceId (sample r) = devId) (rows db)))),
                logged StmtAll db)
          else (Inl D1_MISMATCH, logged StmtAll db))"

definition getAllLatestData :: "d1 \<Rightarrow> int option \<Rightarrow> (js_error + row list) \<times> d1" where
  "getAllLatestData db limit =
     (case limit of
        None \<Rightarrow> (Inl D1_MISMATCH, logged StmtAll db)
      | Some n \<Rightarrow>
          if int64 n
          then (Inr (sql_limit n (order_by_timestamp_desc (rows db))), logged StmtAll db)
          else (Inl D1_MISMATCH, logged StmtAll db))"

definition getDataByTimeRange ::
    "d1 \<Rightarrow> string \<Rightarrow> int option \<Rightarrow> int option \<Rightarrow> (js_error + row list) \<times> d1" where
  "getDataByTimeRange db devId startTime endTime =
     (case (startTime, endTime) of
        (Some t0, Some t1) \<Rightarrow>
          (Inr (order_by_timestamp_asc
                  (filter (\<lambda>r. deviceId (sample r) = devId \<and>
                                valof (timestamp (sample r)) \<ge> real_of_int t0 \<and>
                                valof (timestamp (sample r)) \<le> real_of_int t1) (rows db))),
           logged StmtAll db)
      | _ \<Rightarrow> (Inr [], logged StmtAll db))"

section \<open>The route handlers\<close>

text \<open>
  \<^verbatim>\<open>getCloudflareEnv()\<close> yields no environment (the context lookup threw or has no
  \<^verbatim>\<open>env\<close>) or an environment whose \<^verbatim>\<open>DB\<close> binding may be missing.
\<close>

datatype cloudflare_env = NoContext | Env "d1 option"

fun env_DB :: "cloudflare_env \<Rightarrow> d1 option" where
  "env_DB NoContext = None"
| "env_DB (Env b) = b"

text \<open>
  The request body as \<^verbatim>\<open>request.json()\<close> delivers it: not JSON at all (the call
  throws), the JSON value \<^verbatim>\<open>null\<close> (any property read throws), or a value whose
  properties can be read. A JSON number, string, boolean or array has none of the
  properties and is the object with every field \<open>Absent\<close>.
\<close>

datatype request_body = Unparsable | JsonNull | Json UnityJson

text \<open>
  The bodies of the responses. A limit that is NaN or Infinity is printed as
  \<^verbatim>\<open>null\<close> (\<open>None\<close>).
\<close>

datatype json_body =
    ErrorBody string "js_error option"
  | Saved "string field" "number field" "string field"
  | RangeResult "row list" string string string nat
  | LatestResult "row list" string "int option" nat
  | AllLatestResult "row list" "int option" nat

record response =
  status :: nat
  body :: json_body

definition db_unavailable :: response where
  "db_unavailable = \<lparr>status = 500, body = ErrorBody ''Database not available'' None\<rparr>"

definition invalid_data :: response where
  "invalid_data =
     \<lparr>status = 400, body = ErrorBody ''Invalid data format: missing deviceId or timestamp'' None\<rparr>"

definition save_failed :: "js_error \<Rightarrow> response" where
  "save_failed e = \<lparr>status = 500, body = ErrorBody ''Failed to save data'' (Some e)\<rparr>"

definition query_failed :: "js_error \<Rightarrow> response" where
  "query_failed e = \<lparr>status = 500, body = ErrorBody ''Failed to query data'' (Some e)\<rparr>"

text \<open>The guard of POST: \<^verbatim>\<open>!data.deviceId || !data.timestamp\<close>.\<close>

definition invalid :: "UnityJson \<Rightarrow> bool" where
  "invalid data \<longleftrightarrow> \<not> truthy_str (deviceId data) \<or> \<not> truthy_num (timestamp data)"

definition POST :: "cloudflare_env \<Rightarrow> request_body \<Rightarrow> response \<times> cloudflare_env" where
  "POST env rb =
     (case env_DB env of
        None \<Rightarrow> (db_unavailable, env)
      | Some db \<Rightarrow>
          (case rb of
             Unparsable \<Rightarrow> (save_failed SyntaxError, env)
           | JsonNull \<Rightarrow> (save_failed TypeError, env)
           | Json data \<Rightarrow>
               if invalid data then (invalid_data, env)
               else (case writeData db data of
                       (Inl e, db') \<Rightarrow> (save_failed e, Env (Some db'))
                     | (Inr _, db') \<Rightarrow>
                         (\<lparr>status = 200,
                           body = Saved (deviceId data) (timestamp data) (formattedTime data)\<rparr>,
                          Env (Some db')))))"

text \<open>
  \<^verbatim>\<open>parseInt(s)\<close> without a radix: leading white space is skipped, a sign is read, a
  prefix \<^verbatim>\<open>0x\<close> selects radix 16, and the longest run of digits is converted to the
  nearest double; NaN when there is no digit. The result \<open>None\<close> stands for NaN and
  for plus or minus Infinity, which the program cannot tell apart: each is bound as
  NULL and printed as \<^verbatim>\<open>null\<close>. The white space below code 256 is tab, line feed,
  vertical tab, form feed, carriage return, space and no-break space. (For more than
  20 significant decimal digits the language allows an implementation to round from the
  first 20 digits; this model rounds the exact value.)
\<close>

definition is_white :: "char \<Rightarrow> bool" where
  "is_white c \<longleftrightarrow>
     c \<in> set [CHR 0x20, CHR 0x09, CHR 0x0A, CHR 0x0B, CHR 0x0C, CHR 0x0D, CHR 0xA0]"

definition digit_of :: "char \<Rightarrow> nat option" where
  "digit_of c =
     (let n = (of_char c :: nat) in
      if 48 \<le> n \<and> n \<le> 57 then Some (n - 48)
      else if 97 \<le> n \<and> n \<le> 122 then Some (n - 87)
      else if 65 \<le> n \<and> n \<le> 90 then Some (n - 55)
      else None)"

definition is_digit :: "nat \<Rightarrow> char \<Rightarrow> bool" where
  "is_digit radix c = (case digit_of c of Some d \<Rightarrow> d < radix | None \<Rightarrow> False)"

definition digit_val :: "char \<Rightarrow> nat" where
  "digit_val c = (case digit_of c of Some d \<Rightarrow> d | None \<Rightarrow> 0)"

definition parseInt :: "string \<Rightarrow> int option" where
  "parseInt s =
     (let s1 = dropWhile is_white s;
          signed = (s1 \<noteq> [] \<and> (hd s1 = CHR ''-'' \<or> hd s1 = CHR ''+''));
          negative = (s1 \<noteq> [] \<and> hd s1 = CHR ''-'');
          s2 = (if signed then tl s1 else s1);
          hex = (take 2 s2 = ''0x'' \<or> take 2 s2 = ''0X'');
          radix = (if hex then 16 else 10);
          s3 = (if hex then drop 2 s2 else s2);
          ds = takeWhile (is_digit radix) s3
      in if ds = [] then None
         else to_double ((if negative then - 1 else 1) *
                         int (foldl (\<lambda>a c. a * radix + digit_val c) 0 ds)))"

text \<open>The four query parameters; \<^verbatim>\<open>searchParams.get\<close> yields a string or null.\<close>

record request =
  q_deviceId :: "string option"
  q_limit :: "string option"
  q_startTime :: "string option"
  q_endTime :: "string option"

text \<open>A string or null in a condition: null and the empty string are falsy.\<close>

fun truthy_param :: "string option \<Rightarrow> bool" where
  "truthy_param (Some s) = (s \<noteq> [])"
| "truthy_param None = False"

text \<open>\<^verbatim>\<open>parseInt(searchParams.get("limit") || "10")\<close>\<close>

definition limit_of :: "request \<Rightarrow> int option" where
  "limit_of req = parseInt (if truthy_param (q_limit req) then the (q_limit req) else ''10'')"

definition GET :: "cloudflare_env \<Rightarrow> request \<Rightarrow> response \<times> cloudflare_env" where
  "GET env req =
     (case env_DB env of
        None \<Rightarrow> (db_unavailable, env)
      | Some db \<Rightarrow>
          (let limit = limit_of req
           in if truthy_param (q_deviceId req) \<and> truthy_param (q_startTime req) \<and>
                 truthy_param (q_endTime req)
              then (case getDataByTimeRange db (the (q_deviceId req))
                           (parseInt (the (q_startTime req))) (parseInt (the (q_endTime req))) of
                      (Inl e, db') \<Rightarrow> (query_failed e, Env (Some db'))
                    | (Inr data, db') \<Rightarrow>
                        (\<lparr>status = 200,
                          body = RangeResult data (the (q_deviceId req)) (the (q_startTime req))
                                   (the (q_endTime req)) (length data)\<rparr>,
                         Env (Some db')))
              else if truthy_param (q_deviceId req)
              then (case getLatestData db (the (q_deviceId req)) limit of
                      (Inl e, db') \<Rightarrow> (query_failed e, Env (Some db'))
                    | (Inr data, db') \<Rightarrow>
                        (\<lparr>status = 200,
                          body = LatestResult data (the (q_deviceId req)) limit (length data)\<rparr>,
                         Env (Some db')))
              else (case getAllLatestData db limit of
                      (Inl e, db') \<Rightarrow> (query_failed e, Env (Some db'))
                    | (Inr data, db') \<Rightarrow>
                        (\<lparr>status = 200, body = AllLatestResult data limit (length data)\<rparr>,
                         Env (Some db')))))"

section \<open>The validation rule in the words of the specification\<close>

text \<open>
  "A sample is invalid if deviceId is empty/absent or timestamp is absent or not
  representable as an integer." This predicate follows the specification, not the code;
  it is compared with the guard \<open>invalid\<close> of POST.
\<close>

definition spec_invalid :: "UnityJson \<Rightarrow> bool" where
  "spec_invalid data \<longleftrightarrow>
     (case deviceId data of Val d \<Rightarrow> d = [] | _ \<Rightarrow> True) \<or>
     (case timestamp data of
        Val (Finite t) \<Rightarrow> real_of_int \<lfloor>valof t\<rfloor> \<noteq> valof t
      | _ \<Rightarrow> True)"

section \<open>A concrete store\<close>

text \<open>
  A reading of device \<open>d\<close> at time \<open>t\<close> (a double) with every other number 0, and
  the store that results from posting A at 100, A at 300 and B at 200 to an empty
  database.
\<close>

definition reading :: "string \<Rightarrow> real \<Rightarrow> UnityData" where
  "reading d t =
     \<lparr>deviceId = d, formattedTime = ''t'', timestamp = dbl t, latitude = 0, longitude = 0,
      pitch = 0, yaw = 0, roll = 0, speed = 0,
      velocity = \<lparr>vel_x = 0, vel_y = 0, vel_z = 0\<rparr>,
      horizontalSpeed = 0, verticalSpeed = 0, flightDirection = 0, groundDistance = 0\<rparr>"

definition empty_db :: d1 where
  "empty_db = \<lparr>rows = [], sqlite_sequence = 0, clock = 0, calls = []\<rparr>"

definition ingest :: "cloudflare_env \<Rightarrow> UnityData \<Rightarrow> cloudflare_env" where
  "ingest env s = snd (POST env (Json (to_json s)))"

definition stored_row :: "nat \<Rightarrow> string \<Rightarrow> real \<Rightarrow> row" where
  "stored_row i d t = \<lparr>row_id = i, sample = reading d t, created_at = 0\<rparr>"

definition scenario_db :: d1 where
  "scenario_db =
     \<lparr>rows = [stored_row 1 ''A'' 100, stored_row 2 ''A'' 300, stored_row 3 ''B'' 200],
      sqlite_sequence = 3, clock = 0, calls = [StmtRun, StmtRun, StmtRun]\<rparr>"

text \<open>The database after \<^verbatim>\<open>run\<close> has inserted the complete sample \<open>s\<close>.\<close>

definition inserted :: "d1 \<Rightarrow> UnityData \<Rightarrow> d1" where
  "inserted db s =
     db\<lparr>rows := rows db @ [\<lparr>row_id = next_rowid db, sample = s, created_at = clock db\<rparr>],
        sqlite_sequence := next_rowid db, calls := calls db @ [StmtRun]\<rparr>"

text \<open>A batch of three whose second element has \<^verbatim>\<open>formattedTime: null\<close>.\<close>

definition faulty_batch :: "UnityJson list" where
  "faulty_batch =
     [to_json (reading ''A'' 1), (to_json (reading ''A'' 2))\<lparr>formattedTime := Null\<rparr>,
      to_json (reading ''B'' 3)]"

section \<open>Basic facts\<close>

subsection \<open>Doubles\<close>

lemma is_double_int: "\<bar>n\<bar> < 2 ^ 53 \<Longrightarrow> is_double (real_of_int n)"
  unfolding is_double_def by (rule exI[of _ n], rule exI[of _ 0]) simp

lemma is_double_half: "\<bar>n\<bar> < 2 ^ 53 \<Longrightarrow> is_double (real_of_int n / 2)"
  unfolding is_double_def
  by (rule exI[of _ n], rule exI[of _ "- 1"]) (simp add: power_int_minus)

lemma double_consts [simp]:
  "is_double 0" "is_double 1" "is_double 2" "is_double 3" "is_double 5" "is_double 7"
  "is_double 100" "is_double 200" "is_double 300" "is_double (- 3)"
  "is_double (3 / 2)" "is_double (5 / 2)"
  using is_double_int[of 0] is_double_int[of 1] is_double_int[of 2] is_double_int[of 3]
    is_double_int[of 5] is_double_int[of 7] is_double_int[of 100] is_double_int[of 200]
    is_double_int[of 300] is_double_int[of "- 3"] is_double_half[of 3] is_double_half[of 5]
  by simp_all

lemma valof_dbl [simp]: "is_double x \<Longrightarrow> valof (dbl x) = x"
  by (simp add: dbl_inverse)

lemma dbl_le_iff [simp]: "is_double x \<Longrightarrow> is_double y \<Longrightarrow> dbl x \<le> dbl y \<longleftrightarrow> x \<le> y"
  by (simp add: less_eq_double_def)

lemma dbl_less_iff [simp]: "is_double x \<Longrightarrow> is_double y \<Longrightarrow> dbl x < dbl y \<longleftrightarrow> x < y"
  by (simp add: less_double_def)

lemma dbl_eq_iff [simp]: "is_double x \<Longrightarrow> is_double y \<Longrightarrow> dbl x = dbl y \<longleftrightarrow> x = y"
  by (simp add: dbl_inject)

lemma dbl_eq_zero_iff [simp]: "is_double x \<Longrightarrow> dbl x = 0 \<longleftrightarrow> x = 0"
  by (simp add: zero_double_def)

lemma valof_zero [simp]: "valof 0 = 0"
  by (simp add: zero_double_def)

lemma bits_numeral [simp]:
  "bits 0 = 0"
  "bits (Suc 0) = 1"
  "bits (numeral w) = Suc (bits (numeral w div 2))"
  by (simp_all add: bits.simps[of "Suc 0"] bits.simps[of 0] bits.simps[of "numeral w"])

subsection \<open>Samples and requests\<close>

lemma to_json_valid: "\<not> invalid (to_json s) \<longleftrightarrow> deviceId s \<noteq> [] \<and> timestamp s \<noteq> 0"
  by (simp add: invalid_def to_json_def)

lemma to_json_sel:
  "deviceId (to_json s) = Val (deviceId s)"
  "timestamp (to_json s) = Val (Finite (timestamp s))"
  "formattedTime (to_json s) = Val (formattedTime s)"
  by (simp_all add: to_json_def)

lemma reading_sel:
  "deviceId (reading d t) = d" "timestamp (reading d t) = dbl t"
  "formattedTime (reading d t) = ''t''"
  by (simp_all add: reading_def)

lemma stmt_bind_to_json:
  "stmt_bind (to_json s) =
     Inr \<lparr>deviceId = Val (deviceId s), formattedTime = Val (formattedTime s),
          timestamp = Val (Finite (timestamp s)), latitude = Val (Finite (latitude s)),
          longitude = Val (Finite (longitude s)), pitch = Val (Finite (pitch s)),
          yaw = Val (Finite (yaw s)), roll = Val (Finite (roll s)),
          speed = Val (Finite (speed s)),
          velocity = \<lparr>vel_x = Val (Finite (vel_x (velocity s))),
                       vel_y = Val (Finite (vel_y (velocity s))),
                       vel_z = Val (Finite (vel_z (velocity s)))\<rparr>,
          horizontalSpeed = Val (Finite (horizontalSpeed s)),
          verticalSpeed = Val (Finite (verticalSpeed s)),
          flightDirection = Val (Finite (flightDirection s)),
          groundDistance = Val (Finite (groundDistance s))\<rparr>"
  by (simp add: stmt_bind_def to_json_def has_undefined_def)

lemma writeData_to_json: "writeData db (to_json s) = (Inr (), inserted db s)"
  by (simp add: writeData_def stmt_bind_to_json d1_run_def exec_insert_def has_null_def stored_def
      column_def logged_def next_rowid_def inserted_def)

lemma POST_to_json:
  "deviceId s \<noteq> [] \<Longrightarrow> timestamp s \<noteq> 0 \<Longrightarrow>
   POST (Env (Some db)) (Json (to_json s)) =
     (\<lparr>status = 200,
       body = Saved (Val (deviceId s)) (Val (Finite (timestamp s))) (Val (formattedTime s))\<rparr>,
      Env (Some (inserted db s)))"
  using to_json_valid[of s] by (simp add: POST_def writeData_to_json to_json_sel)

lemma parseInt_10: "parseInt ''10'' = Some 10"
  by (simp add: parseInt_def Let_def is_white_def is_digit_def digit_of_def digit_val_def
      to_double_def)

lemma parseInt_1: "parseInt ''1'' = Some 1"
  by (simp add: parseInt_def Let_def is_white_def is_digit_def digit_of_def digit_val_def
      to_double_def)

lemma parseInt_minus_1: "parseInt ''-1'' = Some (- 1)"
  by (simp add: parseInt_def Let_def is_white_def is_digit_def digit_of_def digit_val_def
      to_double_def)

lemma parseInt_twenty_nines: "parseInt ''99999999999999999999'' = Some 100000000000000000000"
  by (simp add: parseInt_def Let_def is_white_def is_digit_def digit_of_def digit_val_def
      to_double_def)

lemma scenario_db_ingested:
  "ingest (ingest (ingest (Env (Some empty_db)) (reading ''A'' 100)) (reading ''A'' 300))
     (reading ''B'' 200) = Env (Some scenario_db)"
  by (simp add: ingest_def POST_to_json reading_sel next_rowid_def empty_db_def scenario_db_def
      stored_row_def inserted_def)

lemma scenario_latest:
  "order_by_timestamp_desc (rows scenario_db) =
     [stored_row 2 ''A'' 300, stored_row 3 ''B'' 200, stored_row 1 ''A'' 100]"
  by (simp add: scenario_db_def order_by_timestamp_desc_def order_key_def stored_row_def
      reading_sel)

lemma scenario_latest_A:
  "order_by_timestamp_desc (filter (\<lambda>r. deviceId (sample r) = ''A'') (rows scenario_db)) =
     [stored_row 2 ''A'' 300, stored_row 1 ''A'' 100]"
  by (simp add: scenario_db_def order_by_timestamp_desc_def order_key_def stored_row_def
      reading_sel)

lemma scenario_no_C: "\<forall>r\<in>set (rows scenario_db). deviceId (sample r) \<noteq> ''C''"
  by (simp add: scenario_db_def stored_row_def reading_sel)

lemma scenario_next: "next_rowid scenario_db = 4" "clock scenario_db = 0"
  by (simp_all add: next_rowid_def scenario_db_def stored_row_def)

subsection \<open>Ordering\<close>

lemma order_key_le_iff:
  "order_key b \<le> order_key a \<longleftrightarrow>
     timestamp (sample b) < timestamp (sample a) \<or>
     timestamp (sample b) = timestamp (sample a) \<and> row_id b \<le> row_id a"
  by (auto simp: order_key_def)

lemma sorted_order_key_timestamp:
  "sorted (map order_key rs) \<Longrightarrow> sorted (map (\<lambda>r. timestamp (sample r)) rs)"
  unfolding sorted_map
  by (erule sorted_wrt_mono_rel[rotated]) (auto simp: order_key_def)

lemma sorted_desc_order_key:
  "sorted_wrt (\<lambda>a b. order_key b \<le> order_key a) (order_by_timestamp_desc rs)"
  using sorted_sort_key[of order_key rs]
  by (simp add: order_by_timestamp_desc_def sorted_wrt_rev sorted_map)

lemma mset_order_by_timestamp_desc: "mset (order_by_timestamp_desc rs) = mset rs"
  by (simp add: order_by_timestamp_desc_def)

lemma insort_key_before_last:
  "f x \<le> f n \<Longrightarrow> insort_key f x (zs @ [n]) = insort_key f x zs @ [n]"
  by (induction zs) auto

lemma sort_key_snoc_greatest:
  "\<forall>y\<in>set ys. f y \<le> f n \<Longrightarrow> sort_key f (ys @ [n]) = sort_key f ys @ [n]"
  by (induction ys) (auto simp: insort_key_before_last)

lemma fold_max_ge_init: "(s::nat) \<le> fold max xs s"
  by (induction xs arbitrary: s) (auto intro: order_trans[OF max.cobounded2])

lemma fold_max_ge_elem: "x \<in> set xs \<Longrightarrow> (x::nat) \<le> fold max xs s"
proof (induction xs arbitrary: s)
  case Nil
  then show ?case by simp
next
  case (Cons a xs)
  show ?case
  proof (cases "x = a")
    case True
    have "a \<le> max a s" by simp
    also have "\<dots> \<le> fold max xs (max a s)" by (rule fold_max_ge_init)
    finally show ?thesis using True by simp
  next
    case False
    with Cons show ?thesis by simp
  qed
qed

lemma row_id_less_next: "r \<in> set (rows db) \<Longrightarrow> row_id r < next_rowid db"
  using fold_max_ge_elem[of "row_id r" "map row_id (rows db)" "sqlite_sequence db"]
  by (simp add: next_rowid_def less_Suc_eq_le)

lemma latest_after_append:
  assumes "\<forall>r\<in>set rs. deviceId (sample r) = deviceId (sample new) \<longrightarrow>
             order_key r \<le> order_key new"
  shows "sql_limit 1 (order_by_timestamp_desc
           (filter (\<lambda>r. deviceId (sample r) = deviceId (sample new)) (rs @ [new]))) = [new]"
proof -
  let ?ys = "filter (\<lambda>r. deviceId (sample r) = deviceId (sample new)) rs"
  have "\<forall>y\<in>set ?ys. order_key y \<le> order_key new"
    using assms by simp
  then have "sort_key order_key (?ys @ [new]) = sort_key order_key ?ys @ [new]"
    by (rule sort_key_snoc_greatest)
  then show ?thesis
    by (simp add: order_by_timestamp_desc_def sql_limit_def)
qed

subsection \<open>Binding and executing a batch\<close>

lemma text_present: "f \<noteq> Absent \<Longrightarrow> \<not> null_text f \<Longrightarrow> Val (unVal f) = f"
  by (cases f) simp_all

lemma number_present: "f \<noteq> Absent \<Longrightarrow> \<not> null_number f \<Longrightarrow> Val (Finite (column f)) = f"
proof (cases f)
  case (Val n)
  assume "\<not> null_number f"
  with Val show ?thesis by (cases n) (simp_all add: column_def)
qed simp_all

lemma stmt_bind_roundtrip:
  assumes "stmt_bind x = Inr b" and "\<not> has_null b"
  shows "to_json (stored b) = x"
proof -
  from assms(1) obtain v where v: "velocity x = Val v"
    by (cases "velocity x") (simp_all add: stmt_bind_def)
  from assms(1) v
  have b: "b = \<lparr>deviceId = deviceId x, formattedTime = formattedTime x,
                timestamp = timestamp x, latitude = latitude x,
                longitude = longitude x, pitch = pitch x, yaw = yaw x,
                roll = roll x, speed = speed x, velocity = v,
                horizontalSpeed = horizontalSpeed x, verticalSpeed = verticalSpeed x,
                flightDirection = flightDirection x, groundDistance = groundDistance x\<rparr>"
    and u: "\<not> has_undefined b"
    by (auto simp: stmt_bind_def Let_def split: if_splits)
  have vv: "\<lparr>vel_x = Val (Finite (column (vel_x v))), vel_y = Val (Finite (column (vel_y v))),
             vel_z = Val (Finite (column (vel_z v)))\<rparr> = v"
    using u assms(2) unfolding b has_undefined_def has_null_def
    by (cases v) (simp add: number_present)
  show ?thesis
    using u assms(2) v vv unfolding b has_undefined_def has_null_def
    by (cases x) (simp add: to_json_def stored_def text_present number_present)
qed

lemma exec_all_Inr:
  "exec_all bs db = Inr db' \<Longrightarrow>
     (\<exists>news. rows db' = rows db @ news \<and> map sample news = map stored bs) \<and>
     (\<forall>b\<in>set bs. \<not> has_null b)"
proof (induction bs arbitrary: db)
  case Nil
  then show ?case by simp
next
  case (Cons b bs)
  let ?r = "\<lparr>row_id = next_rowid db, sample = stored b, created_at = clock db\<rparr>"
  from Cons.prems obtain db1
    where 1: "exec_insert b db = Inr db1" and 2: "exec_all bs db1 = Inr db'"
    by (auto split: sum.splits)
  from 1 have nn: "\<not> has_null b" and r1: "rows db1 = rows db @ [?r]"
    by (auto simp: exec_insert_def split: if_splits)
  from Cons.IH[OF 2] obtain news
    where "rows db' = rows db1 @ news" "map sample news = map stored bs"
      and rest: "\<forall>b\<in>set bs. \<not> has_null b"
    by blast
  then have "rows db' = rows db @ (?r # news)"
    and "map sample (?r # news) = map stored (b # bs)"
    using r1 by simp_all
  with nn rest show ?case by (metis set_ConsD)
qed

lemma bind_each_Inr:
  "bind_each xs = Inr bs \<Longrightarrow> list_all2 (\<lambda>x b. stmt_bind x = Inr b) xs bs"
  by (induction xs arbitrary: bs) (auto split: sum.splits)

lemma bound_roundtrip_all:
  "list_all2 (\<lambda>x b. stmt_bind x = Inr b) xs bs \<Longrightarrow> \<forall>b\<in>set bs. \<not> has_null b \<Longrightarrow>
   map (\<lambda>b. to_json (stored b)) bs = xs"
  by (induction xs bs rule: list_all2_induct) (auto simp: stmt_bind_roundtrip)

lemma stmt_bind_null_time:
  "\<exists>b. stmt_bind ((to_json s)\<lparr>formattedTime := Null\<rparr>) = Inr b \<and> has_null b"
  by (simp add: stmt_bind_def to_json_def has_undefined_def has_null_def)

lemma faulty_batch_fails:
  "writeBatchData scenario_db faulty_batch = (Inl D1_CONSTRAINT, logged DbBatch scenario_db)"
proof -
  obtain b1 where b1: "stmt_bind (to_json (reading ''A'' 1)) = Inr b1" "\<not> has_null b1"
    by (simp add: stmt_bind_to_json has_null_def)
  obtain b2
    where b2: "stmt_bind ((to_json (reading ''A'' 2))\<lparr>formattedTime := Null\<rparr>) = Inr b2"
      "has_null b2"
    using stmt_bind_null_time by blast
  obtain b3 where b3: "stmt_bind (to_json (reading ''B'' 3)) = Inr b3"
    by (simp add: stmt_bind_to_json)
  show ?thesis
    by (simp add: writeBatchData_def faulty_batch_def b1 b2 b3 d1_batch_def exec_insert_def)
qed

section \<open>The write path\<close>

text \<open>
  C1. \<^verbatim>\<open>writeBatchData\<close> hands the whole array to \<^verbatim>\<open>db.batch\<close> in one call.
  For every non-empty batch the call has one of two outcomes. It succeeds: the table is
  the old table followed by one new row per element of the batch, in order, each holding
  exactly the fields of its element. Or it fails with an error: the table and the
  AUTOINCREMENT counter are what they were before the call, wherever in the batch the
  failure arose (an \<^verbatim>\<open>undefined\<close> argument while binding, a NULL in a NOT NULL
  column while executing).
\<close>

theorem writeBatchData_all_or_nothing:
  assumes "dataArray \<noteq> []"
  shows "(\<exists>db'. writeBatchData db dataArray = (Inr (), db') \<and>
            take (length (rows db)) (rows db') = rows db \<and>
            map (\<lambda>r. to_json (sample r)) (drop (length (rows db)) (rows db')) = dataArray)
       \<or> (\<exists>e db'. writeBatchData db dataArray = (Inl e, db') \<and>
            rows db' = rows db \<and> sqlite_sequence db' = sqlite_sequence db)"
proof (cases "bind_each dataArray")
  case (Inl e)
  then show ?thesis by (simp add: writeBatchData_def)
next
  case (Inr bs)
  from bind_each_Inr[OF Inr] assms have ne: "bs \<noteq> []"
    by (auto dest: list_all2_lengthD)
  show ?thesis
  proof (cases "exec_all bs (logged DbBatch db)")
    case (Inl e)
    with Inr ne show ?thesis by (simp add: writeBatchData_def d1_batch_def logged_def)
  next
    case committed: (Inr db')
    from exec_all_Inr[OF committed] obtain news where
      news: "rows db' = rows db @ news" "map sample news = map stored bs"
      and nn: "\<forall>b\<in>set bs. \<not> has_null b"
      by (auto simp: logged_def)
    have "map (\<lambda>r. to_json (sample r)) news = map to_json (map sample news)"
      by simp
    also have "\<dots> = map to_json (map stored bs)"
      by (simp only: news(2))
    also have "\<dots> = map (\<lambda>b. to_json (stored b)) bs"
      by simp
    also have "\<dots> = dataArray"
      by (rule bound_roundtrip_all[OF bind_each_Inr[OF Inr] nn])
    finally have "map (\<lambda>r. to_json (sample r)) (drop (length (rows db)) (rows db')) = dataArray"
      by (simp add: news(1))
    moreover have "writeBatchData db dataArray = (Inr (), db')"
      using Inr committed ne by (simp add: writeBatchData_def d1_batch_def)
    ultimately show ?thesis by (simp add: news(1))
  qed
qed

text \<open>
  The batch whose second of three elements carries a null fails in the middle and leaves
  the three rows of the scenario store as they were; the batch of two complete samples
  commits both.
\<close>

theorem writeBatchData_all_or_nothing_witness:
  "writeBatchData scenario_db faulty_batch = (Inl D1_CONSTRAINT, logged DbBatch scenario_db) \<and>
   rows (logged DbBatch scenario_db) = rows scenario_db \<and>
   (\<exists>db'. writeBatchData scenario_db [to_json (reading ''A'' 1), to_json (reading ''B'' 3)] =
             (Inr (), db') \<and>
          take 3 (rows db') = rows scenario_db \<and>
          map (\<lambda>r. to_json (sample r)) (drop 3 (rows db')) =
            [to_json (reading ''A'' 1), to_json (reading ''B'' 3)])"
proof -
  have ne: "[to_json (reading ''A'' 1), to_json (reading ''B'' 3)] \<noteq> []"
    by simp
  have ok: "fst (writeBatchData scenario_db [to_json (reading ''A'' 1), to_json (reading ''B'' 3)])
              = Inr ()"
    by (simp add: writeBatchData_def stmt_bind_to_json d1_batch_def exec_insert_def has_null_def)
  have len: "length (rows scenario_db) = 3"
    by (simp add: scenario_db_def)
  from writeBatchData_all_or_nothing[OF ne, of scenario_db] ok
  have "\<exists>db'. writeBatchData scenario_db [to_json (reading ''A'' 1), to_json (reading ''B'' 3)] =
             (Inr (), db') \<and>
          take 3 (rows db') = rows scenario_db \<and>
          map (\<lambda>r. to_json (sample r)) (drop 3 (rows db')) =
            [to_json (reading ''A'' 1), to_json (reading ''B'' 3)]"
    unfolding len by auto
  with faulty_batch_fails show ?thesis
    by (simp add: logged_def)
qed

text \<open>
  The round trip of a stored sample. Let \<open>s\<close> be a complete sample that passes the
  guard of POST and let the store hold no record of \<open>s\<close>'s device with a larger
  timestamp. Then posting \<open>s\<close> succeeds, and the read request for \<open>s\<close>'s device
  with limit 1 that follows returns exactly one record, whose sample fields are those of
  \<open>s\<close>.
\<close>

lemma ingest_then_latest:
  assumes "\<not> invalid (to_json s)"
    and "\<forall>r\<in>set (rows db). deviceId (sample r) = deviceId s \<longrightarrow>
           timestamp (sample r) \<le> timestamp s"
  shows "\<exists>db1 db2 r.
     POST (Env (Some db)) (Json (to_json s)) =
       (\<lparr>status = 200,
         body = Saved (Val (deviceId s)) (Val (Finite (timestamp s))) (Val (formattedTime s))\<rparr>,
        Env (Some db1)) \<and>
     GET (Env (Some db1)) \<lparr>q_deviceId = Some (deviceId s), q_limit = Some ''1'',
                             q_startTime = None, q_endTime = None\<rparr> =
       (\<lparr>status = 200, body = LatestResult [r] (deviceId s) (Some 1) 1\<rparr>, Env (Some db2)) \<and>
     sample r = s"
proof -
  let ?new = "\<lparr>row_id = next_rowid db, sample = s, created_at = clock db\<rparr>"
  from assms(1) have ok: "deviceId s \<noteq> []" "timestamp s \<noteq> 0"
    by (simp_all add: to_json_valid)
  have "\<forall>r\<in>set (rows db). deviceId (sample r) = deviceId (sample ?new) \<longrightarrow>
          order_key r \<le> order_key ?new"
    using assms(2) by (auto simp: order_key_def dest: row_id_less_next less_imp_le)
  then have top: "sql_limit 1 (order_by_timestamp_desc
           (filter (\<lambda>r. deviceId (sample r) = deviceId s) (rows db @ [?new]))) = [?new]"
    using latest_after_append[of "rows db" ?new] by simp
  have "GET (Env (Some (inserted db s))) \<lparr>q_deviceId = Some (deviceId s), q_limit = Some ''1'',
                             q_startTime = None, q_endTime = None\<rparr> =
       (\<lparr>status = 200, body = LatestResult [?new] (deviceId s) (Some 1) 1\<rparr>,
        Env (Some (logged StmtAll (inserted db s))))"
    using ok(1) top
    by (simp add: GET_def limit_of_def parseInt_1 getLatestData_def inserted_def int64_def)
  with POST_to_json[OF ok, of db] show ?thesis by auto
qed

text \<open>
  A second reading of device A at time 300 posted to the scenario store, which already
  holds A at 300: the read returns the new reading.
\<close>

lemma ingest_then_latest_tie:
  "\<exists>db1 db2 r.
     POST (Env (Some scenario_db)) (Json (to_json ((reading ''A'' 300)\<lparr>speed := dbl 7\<rparr>))) =
       (\<lparr>status = 200, body = Saved (Val ''A'') (Val (Finite (dbl 300))) (Val ''t'')\<rparr>,
        Env (Some db1)) \<and>
     GET (Env (Some db1)) \<lparr>q_deviceId = Some ''A'', q_limit = Some ''1'',
                             q_startTime = None, q_endTime = None\<rparr> =
       (\<lparr>status = 200, body = LatestResult [r] ''A'' (Some 1) 1\<rparr>, Env (Some db2)) \<and>
     sample r = (reading ''A'' 300)\<lparr>speed := dbl 7\<rparr>"
proof -
  have 1: "\<not> invalid (to_json ((reading ''A'' 300)\<lparr>speed := dbl 7\<rparr>))"
    by (simp add: to_json_valid reading_def)
  have 2: "\<forall>r\<in>set (rows scenario_db).
             deviceId (sample r) = deviceId ((reading ''A'' 300)\<lparr>speed := dbl 7\<rparr>) \<longrightarrow>
             timestamp (sample r) \<le> timestamp ((reading ''A'' 300)\<lparr>speed := dbl 7\<rparr>)"
    by (simp add: scenario_db_def stored_row_def reading_def)
  from ingest_then_latest[OF 1 2] show ?thesis
    by (simp add: reading_def)
qed

text \<open>
  C2. The round trip does not hold for every sample that the specification calls valid.
  The reading of device A with timestamp 0 has a non-empty device id and a timestamp that
  is present and integral, and the store is empty, so it holds no newer record. POST
  answers it with status 400 and the message that deviceId or timestamp is missing, and
  stores nothing; the read request for device A with limit 1 that follows returns no
  record, where the round trip asks for the reading itself.
\<close>

theorem zero_timestamp_not_round_tripped:
  "\<not> spec_invalid (to_json (reading ''A'' 0)) \<and>
   POST (Env (Some empty_db)) (Json (to_json (reading ''A'' 0))) =
     (\<lparr>status = 400,
       body = ErrorBody ''Invalid data format: missing deviceId or timestamp'' None\<rparr>,
      Env (Some empty_db)) \<and>
   GET (Env (Some empty_db))
     \<lparr>q_deviceId = Some ''A'', q_limit = Some ''1'', q_startTime = None, q_endTime = None\<rparr> =
     (\<lparr>status = 200, body = LatestResult [] ''A'' (Some 1) 0\<rparr>,
      Env (Some (logged StmtAll empty_db)))"
proof -
  have "\<not> spec_invalid (to_json (reading ''A'' 0))"
    by (simp add: spec_invalid_def to_json_sel reading_sel)
  moreover have "invalid (to_json (reading ''A'' 0))"
    by (simp add: invalid_def to_json_sel reading_sel)
  then have "POST (Env (Some empty_db)) (Json (to_json (reading ''A'' 0))) =
     (\<lparr>status = 400,
       body = ErrorBody ''Invalid data format: missing deviceId or timestamp'' None\<rparr>,
      Env (Some empty_db))"
    by (simp add: POST_def invalid_data_def)
  moreover have "GET (Env (Some empty_db))
     \<lparr>q_deviceId = Some ''A'', q_limit = Some ''1'', q_startTime = None, q_endTime = None\<rparr> =
     (\<lparr>status = 200, body = LatestResult [] ''A'' (Some 1) 0\<rparr>,
      Env (Some (logged StmtAll empty_db)))"
    by (simp add: GET_def limit_of_def parseInt_1 getLatestData_def empty_db_def
        order_by_timestamp_desc_def sql_limit_def int64_def)
  ultimately show ?thesis
    by blast
qed

text \<open>
  A reading with timestamp 0 is present and integral, so the rule of the specification
  accepts it, but 0 is falsy and the guard of POST reports it as missing.
\<close>

lemma timestamp_zero_rejected:
  "\<not> spec_invalid (to_json (reading ''A'' 0)) \<and> invalid (to_json (reading ''A'' 0))"
  by (simp add: spec_invalid_def to_json_sel reading_sel invalid_def)




text \<open>
  C5, as amended. A sample whose \<^verbatim>\<open>deviceId\<close> is absent, null or empty, or whose
  \<^verbatim>\<open>timestamp\<close> is absent or null, is answered with status 400, and the environment
  is returned exactly as it was: the table, the counter and the list of executed
  statements are unchanged, so no statement reached the database.
\<close>

theorem rejected_without_store_call:
  "deviceId data \<in> {Absent, Null, Val []} \<or> timestamp data \<in> {Absent, Null} \<Longrightarrow>
   POST (Env (Some db)) (Json data) =
     (\<lparr>status = 400,
       body = ErrorBody ''Invalid data format: missing deviceId or timestamp'' None\<rparr>,
      Env (Some db))"
proof -
  assume "deviceId data \<in> {Absent, Null, Val []} \<or> timestamp data \<in> {Absent, Null}"
  then have "invalid data"
    by (auto simp: invalid_def)
  then show ?thesis
    by (simp add: POST_def invalid_data_def)
qed

text \<open>A reading of device A whose timestamp is missing.\<close>

theorem rejected_without_store_call_witness:
  "POST (Env (Some scenario_db)) (Json ((to_json (reading ''A'' 5))\<lparr>timestamp := Absent\<rparr>)) =
     (\<lparr>status = 400,
       body = ErrorBody ''Invalid data format: missing deviceId or timestamp'' None\<rparr>,
      Env (Some scenario_db))"
proof -
  have "deviceId ((to_json (reading ''A'' 5))\<lparr>timestamp := Absent\<rparr>) \<in> {Absent, Null, Val []} \<or>
        timestamp ((to_json (reading ''A'' 5))\<lparr>timestamp := Absent\<rparr>) \<in> {Absent, Null}"
    by simp
  from rejected_without_store_call[OF this, of scenario_db] show ?thesis .
qed

text \<open>
  A sample that fails the rule of the specification is not always rejected: the reading
  of device A at time 5/2 is invalid by that rule, yet POST answers it with status 200,
  a statement is executed and the reading becomes the fourth row of the scenario store.
\<close>

theorem fractional_timestamp_reaches_store:
  "spec_invalid (to_json (reading ''A'' (5 / 2))) \<and>
   POST (Env (Some scenario_db)) (Json (to_json (reading ''A'' (5 / 2)))) =
     (\<lparr>status = 200, body = Saved (Val ''A'') (Val (Finite (dbl (5 / 2)))) (Val ''t'')\<rparr>,
      Env (Some \<lparr>rows = [stored_row 1 ''A'' 100, stored_row 2 ''A'' 300, stored_row 3 ''B'' 200,
                         stored_row 4 ''A'' (5 / 2)],
                  sqlite_sequence = 4, clock = 0,
                  calls = [StmtRun, StmtRun, StmtRun, StmtRun]\<rparr>))"
proof -
  have "spec_invalid (to_json (reading ''A'' (5 / 2)))"
    by (simp add: spec_invalid_def to_json_sel reading_sel)
  moreover have ok: "deviceId (reading ''A'' (5 / 2)) \<noteq> []" "timestamp (reading ''A'' (5 / 2)) \<noteq> 0"
    by (simp_all add: reading_sel)
  have "POST (Env (Some scenario_db)) (Json (to_json (reading ''A'' (5 / 2)))) =
     (\<lparr>status = 200, body = Saved (Val ''A'') (Val (Finite (dbl (5 / 2)))) (Val ''t'')\<rparr>,
      Env (Some \<lparr>rows = [stored_row 1 ''A'' 100, stored_row 2 ''A'' 300, stored_row 3 ''B'' 200,
                         stored_row 4 ''A'' (5 / 2)],
                  sqlite_sequence = 4, clock = 0,
                  calls = [StmtRun, StmtRun, StmtRun, StmtRun]\<rparr>))"
    by (simp add: POST_to_json[OF ok] reading_sel inserted_def scenario_next)
       (simp add: scenario_db_def stored_row_def)
  ultimately show ?thesis
    by blast
qed

section \<open>The read path\<close>

text \<open>
  C3. For every store, device and pair of integer bounds the range query returns exactly
  the rows of the table with that device id and with
  \<open>startTime \<le> timestamp \<le> endTime\<close>, each as often as it is stored, in ascending
  order of timestamp; their number is the number of matching rows, however large.
\<close>

theorem getDataByTimeRange_exact:
  "\<exists>data. getDataByTimeRange db devId (Some t0) (Some t1) = (Inr data, logged StmtAll db) \<and>
     mset data = {#r \<in># mset (rows db). deviceId (sample r) = devId \<and>
                     real_of_int t0 \<le> valof (timestamp (sample r)) \<and>
                     valof (timestamp (sample r)) \<le> real_of_int t1#} \<and>
     sorted (map (\<lambda>r. timestamp (sample r)) data) \<and>
     length data = length (filter (\<lambda>r. deviceId (sample r) = devId \<and>
                     real_of_int t0 \<le> valof (timestamp (sample r)) \<and>
                     valof (timestamp (sample r)) \<le> real_of_int t1) (rows db))"
  by (simp add: getDataByTimeRange_def order_by_timestamp_asc_def sorted_order_key_timestamp)

text \<open>
  C7. When \<open>startTime > endTime\<close> the range query succeeds with the empty list.
\<close>

theorem reversed_bounds_empty:
  "t0 > t1 \<Longrightarrow> getDataByTimeRange db devId (Some t0) (Some t1) = (Inr [], logged StmtAll db)"
  by (auto simp: getDataByTimeRange_def order_by_timestamp_asc_def filter_empty_conv)

text \<open>
  In the scenario store the range 300 to 100 of device A is empty, while the range 100 to
  300 holds A at 100 and A at 300, ascending.
\<close>

theorem reversed_bounds_empty_witness:
  "getDataByTimeRange scenario_db ''A'' (Some 300) (Some 100) =
     (Inr [], logged StmtAll scenario_db) \<and>
   getDataByTimeRange scenario_db ''A'' (Some 100) (Some 300) =
     (Inr [stored_row 1 ''A'' 100, stored_row 2 ''A'' 300], logged StmtAll scenario_db)"
proof -
  have "getDataByTimeRange scenario_db ''A'' (Some 100) (Some 300) =
     (Inr [stored_row 1 ''A'' 100, stored_row 2 ''A'' 300], logged StmtAll scenario_db)"
    by (simp add: getDataByTimeRange_def scenario_db_def order_by_timestamp_asc_def
        order_key_def stored_row_def reading_sel)
  with reversed_bounds_empty[of 100 300 scenario_db "''A''"] show ?thesis
    by simp
qed

text \<open>
  C8, as amended. For a device without any stored record the latest-for-device query
  succeeds with the empty list for every limit in the signed 64-bit range, and the read
  endpoint answers the request for such a device (default limit) with status 200, no
  data and count 0. For a limit outside that range the query fails.
\<close>

theorem unknown_device_empty:
  "\<forall>r\<in>set (rows db). deviceId (sample r) \<noteq> devId \<Longrightarrow>
   (- (2 ^ 63) \<le> n \<and> n < 2 ^ 63 \<longrightarrow>
      getLatestData db devId (Some n) = (Inr [], logged StmtAll db)) \<and>
   (n < - (2 ^ 63) \<or> 2 ^ 63 \<le> n \<longrightarrow>
      getLatestData db devId (Some n) = (Inl D1_MISMATCH, logged StmtAll db)) \<and>
   (devId \<noteq> [] \<longrightarrow>
      GET (Env (Some db))
        \<lparr>q_deviceId = Some devId, q_limit = None, q_startTime = None, q_endTime = None\<rparr> =
      (\<lparr>status = 200, body = LatestResult [] devId (Some 10) 0\<rparr>,
       Env (Some (logged StmtAll db))))"
  by (auto simp: getLatestData_def GET_def limit_of_def order_by_timestamp_desc_def sql_limit_def
      filter_empty_conv parseInt_10 int64_def)

text \<open>Device C has no record in the scenario store.\<close>

theorem unknown_device_empty_witness:
  "getLatestData scenario_db ''C'' (Some 10) = (Inr [], logged StmtAll scenario_db) \<and>
   getLatestData scenario_db ''C'' (Some (- 1)) = (Inr [], logged StmtAll scenario_db) \<and>
   GET (Env (Some scenario_db))
     \<lparr>q_deviceId = Some ''C'', q_limit = None, q_startTime = None, q_endTime = None\<rparr> =
   (\<lparr>status = 200, body = LatestResult [] ''C'' (Some 10) 0\<rparr>,
    Env (Some (logged StmtAll scenario_db)))"
  using unknown_device_empty[OF scenario_no_C, of 10] unknown_device_empty[OF scenario_no_C, of "- 1"]
  by simp

text \<open>
  The read request for device C with \<^verbatim>\<open>limit=99999999999999999999\<close> on the scenario
  store, which holds no record of C, is answered with status 500: the limit is parsed to
  the double \<open>10 ^ 20\<close>, which is no 64-bit integer.
\<close>

theorem unknown_device_huge_limit_fails:
  "filter (\<lambda>r. deviceId (sample r) = ''C'') (rows scenario_db) = [] \<and>
   GET (Env (Some scenario_db))
     \<lparr>q_deviceId = Some ''C'', q_limit = Some ''99999999999999999999'', q_startTime = None,
       q_endTime = None\<rparr> =
   (\<lparr>status = 500, body = ErrorBody ''Failed to query data'' (Some D1_MISMATCH)\<rparr>,
    Env (Some (logged StmtAll scenario_db)))"
  by (simp add: GET_def limit_of_def parseInt_twenty_nines getLatestData_def int64_def
      query_failed_def scenario_db_def stored_row_def reading_sel)

text \<open>
  C6, as amended. Let \<open>full\<close> be the rows of the table, of all devices, in descending
  order of timestamp, rows of equal timestamp in descending order of id (the later
  insertion first). For a limit from 0 up to the largest 64-bit integer the
  latest-across-all-devices query returns the first limit rows of \<open>full\<close>, hence at
  most limit records; for a negative limit in the 64-bit range it returns all of
  \<open>full\<close>; for a limit outside that range it fails. After posting A at 100, A at 300
  and B at 200 to the empty store, the read request with limit 10 returns A at 300, B at
  200, A at 100.
\<close>

theorem getAllLatestData_recent_first:
  "(- (2 ^ 63) \<le> n \<and> n < 2 ^ 63 \<longrightarrow>
      (\<exists>full. mset full = mset (rows db) \<and>
         sorted_wrt (\<lambda>a b. timestamp (sample b) < timestamp (sample a) \<or>
                            timestamp (sample b) = timestamp (sample a) \<and> row_id b \<le> row_id a)
           full \<and>
         getAllLatestData db (Some n) =
           (Inr (if n < 0 then full else take (nat n) full), logged StmtAll db) \<and>
         (0 \<le> n \<longrightarrow> int (length (take (nat n) full)) \<le> n))) \<and>
   (n < - (2 ^ 63) \<or> 2 ^ 63 \<le> n \<longrightarrow>
      getAllLatestData db (Some n) = (Inl D1_MISMATCH, logged StmtAll db)) \<and>
   GET (ingest (ingest (ingest (Env (Some empty_db)) (reading ''A'' 100)) (reading ''A'' 300))
          (reading ''B'' 200))
       \<lparr>q_deviceId = None, q_limit = Some ''10'', q_startTime = None, q_endTime = None\<rparr> =
     (\<lparr>status = 200,
       body = AllLatestResult
                [stored_row 2 ''A'' 300, stored_row 3 ''B'' 200, stored_row 1 ''A'' 100]
                (Some 10) 3\<rparr>,
      Env (Some (logged StmtAll scenario_db)))"
proof -
  let ?full = "order_by_timestamp_desc (rows db)"
  have s: "sorted_wrt (\<lambda>a b. timestamp (sample b) < timestamp (sample a) \<or>
                            timestamp (sample b) = timestamp (sample a) \<and> row_id b \<le> row_id a)
             ?full"
    using sorted_desc_order_key[of "rows db"] by (simp add: order_key_le_iff)
  have m: "mset ?full = mset (rows db)"
    by (rule mset_order_by_timestamp_desc)
  have r: "- (2 ^ 63) \<le> n \<and> n < 2 ^ 63 \<longrightarrow>
             getAllLatestData db (Some n) =
               (Inr (if n < 0 then ?full else take (nat n) ?full), logged StmtAll db)"
    by (simp add: getAllLatestData_def int64_def sql_limit_def)
  have b: "0 \<le> n \<longrightarrow> int (length (take (nat n) ?full)) \<le> n"
    by auto
  from s m r b have inrange: "- (2 ^ 63) \<le> n \<and> n < 2 ^ 63 \<longrightarrow>
      (\<exists>full. mset full = mset (rows db) \<and>
         sorted_wrt (\<lambda>a b. timestamp (sample b) < timestamp (sample a) \<or>
                            timestamp (sample b) = timestamp (sample a) \<and> row_id b \<le> row_id a)
           full \<and>
         getAllLatestData db (Some n) =
           (Inr (if n < 0 then full else take (nat n) full), logged StmtAll db) \<and>
         (0 \<le> n \<longrightarrow> int (length (take (nat n) full)) \<le> n))"
    by blast
  have outside: "n < - (2 ^ 63) \<or> 2 ^ 63 \<le> n \<longrightarrow>
      getAllLatestData db (Some n) = (Inl D1_MISMATCH, logged StmtAll db)"
    by (auto simp: getAllLatestData_def int64_def)
  have "GET (Env (Some scenario_db))
       \<lparr>q_deviceId = None, q_limit = Some ''10'', q_startTime = None, q_endTime = None\<rparr> =
     (\<lparr>status = 200,
       body = AllLatestResult
                [stored_row 2 ''A'' 300, stored_row 3 ''B'' 200, stored_row 1 ''A'' 100]
                (Some 10) 3\<rparr>,
      Env (Some (logged StmtAll scenario_db)))"
    by (simp add: GET_def limit_of_def parseInt_10 getAllLatestData_def scenario_latest
        sql_limit_def int64_def)
  with inrange outside show ?thesis
    by (simp only: scenario_db_ingested)
qed

text \<open>
  With limit 2 the scenario store yields its two latest records, A at 300 and B at 200;
  with limit \<open>10 ^ 20\<close> the query fails.
\<close>

theorem getAllLatestData_recent_first_witness:
  "getAllLatestData scenario_db (Some 2) =
     (Inr [stored_row 2 ''A'' 300, stored_row 3 ''B'' 200], logged StmtAll scenario_db) \<and>
   (\<exists>full. mset full = mset (rows scenario_db) \<and>
      getAllLatestData scenario_db (Some 2) = (Inr (take 2 full), logged StmtAll scenario_db)) \<and>
   getAllLatestData scenario_db (Some 100000000000000000000) =
     (Inl D1_MISMATCH, logged StmtAll scenario_db)"
proof -
  have e: "getAllLatestData scenario_db (Some 2) =
     (Inr [stored_row 2 ''A'' 300, stored_row 3 ''B'' 200], logged StmtAll scenario_db)"
    by (simp add: getAllLatestData_def scenario_latest sql_limit_def int64_def)
  have "- (2 ^ 63) \<le> (2::int) \<and> (2::int) < 2 ^ 63"
    by simp
  with getAllLatestData_recent_first[of 2 scenario_db]
  have "\<exists>full. mset full = mset (rows scenario_db) \<and>
      getAllLatestData scenario_db (Some 2) =
        (Inr (if (2::int) < 0 then full else take (nat 2) full), logged StmtAll scenario_db)"
    by blast
  then have f: "\<exists>full. mset full = mset (rows scenario_db) \<and>
      getAllLatestData scenario_db (Some 2) = (Inr (take 2 full), logged StmtAll scenario_db)"
    by simp
  have "(100000000000000000000::int) < - (2 ^ 63) \<or> 2 ^ 63 \<le> (100000000000000000000::int)"
    by simp
  with getAllLatestData_recent_first[of 100000000000000000000 scenario_db]
  have "getAllLatestData scenario_db (Some 100000000000000000000) =
     (Inl D1_MISMATCH, logged StmtAll scenario_db)"
    by blast
  with e f show ?thesis
    by blast
qed

text \<open>
  The bound "at most limit records" fails at the limit -1: the read request with
  \<^verbatim>\<open>limit=-1\<close> on the scenario store returns all three records.
\<close>

theorem negative_limit_returns_all:
  "GET (Env (Some scenario_db))
       \<lparr>q_deviceId = None, q_limit = Some ''-1'', q_startTime = None, q_endTime = None\<rparr> =
     (\<lparr>status = 200,
       body = AllLatestResult
                [stored_row 2 ''A'' 300, stored_row 3 ''B'' 200, stored_row 1 ''A'' 100]
                (Some (- 1)) 3\<rparr>,
      Env (Some (logged StmtAll scenario_db))) \<and>
   \<not> int (length [stored_row 2 ''A'' 300, stored_row 3 ''B'' 200, stored_row 1 ''A'' 100]) \<le> - 1"
  by (simp add: GET_def limit_of_def parseInt_minus_1 getAllLatestData_def scenario_latest
      sql_limit_def int64_def)

text \<open>
  C9. A read request with a non-empty \<^verbatim>\<open>deviceId\<close> in which \<^verbatim>\<open>startTime\<close> or
  \<^verbatim>\<open>endTime\<close> is absent (or empty) is answered as the same request without either
  time bound is, and that answer is the one of the latest-for-device query with the
  parsed limit: its failure when the query fails, and otherwise status 200 with the
  records it returns. The query succeeds whenever the parsed limit is a 64-bit integer.
  The bound that was supplied has no effect.
\<close>

theorem one_time_bound_falls_through:
  assumes "q_deviceId req = Some d" and "d \<noteq> []"
    and "\<not> (truthy_param (q_startTime req) \<and> truthy_param (q_endTime req))"
  shows "GET env req = GET env (req\<lparr>q_startTime := None, q_endTime := None\<rparr>) \<and>
         GET (Env (Some db)) req =
           (case getLatestData db d (limit_of req) of
              (Inl e, db') \<Rightarrow>
                (\<lparr>status = 500, body = ErrorBody ''Failed to query data'' (Some e)\<rparr>,
                 Env (Some db'))
            | (Inr data, db') \<Rightarrow>
                (\<lparr>status = 200, body = LatestResult data d (limit_of req) (length data)\<rparr>,
                 Env (Some db'))) \<and>
         (\<forall>n. limit_of req = Some n \<and> - (2 ^ 63) \<le> n \<and> n < 2 ^ 63 \<longrightarrow>
            (\<exists>data. getLatestData db d (Some n) = (Inr data, logged StmtAll db) \<and>
                GET (Env (Some db)) req =
                  (\<lparr>status = 200, body = LatestResult data d (Some n) (length data)\<rparr>,
                   Env (Some (logged StmtAll db)))))"
proof -
  have l: "limit_of (req\<lparr>q_startTime := None, q_endTime := None\<rparr>) = limit_of req"
    by (simp add: limit_of_def)
  have 1: "GET env req = GET env (req\<lparr>q_startTime := None, q_endTime := None\<rparr>)"
    using assms l
    by (cases "env_DB env") (auto simp: GET_def Let_def split: prod.splits sum.splits)
  have 2: "GET (Env (Some db)) req =
           (case getLatestData db d (limit_of req) of
              (Inl e, db') \<Rightarrow>
                (\<lparr>status = 500, body = ErrorBody ''Failed to query data'' (Some e)\<rparr>,
                 Env (Some db'))
            | (Inr data, db') \<Rightarrow>
                (\<lparr>status = 200, body = LatestResult data d (limit_of req) (length data)\<rparr>,
                 Env (Some db')))"
    using assms by (auto simp: GET_def Let_def query_failed_def split: prod.splits sum.splits)
  have 3: "\<forall>n. limit_of req = Some n \<and> - (2 ^ 63) \<le> n \<and> n < 2 ^ 63 \<longrightarrow>
            (\<exists>data. getLatestData db d (Some n) = (Inr data, logged StmtAll db) \<and>
                GET (Env (Some db)) req =
                  (\<lparr>status = 200, body = LatestResult data d (Some n) (length data)\<rparr>,
                   Env (Some (logged StmtAll db))))"
    using assms by (auto simp: GET_def Let_def getLatestData_def int64_def)
  from 1 2 3 show ?thesis by blast
qed

text \<open>
  The request for device A with \<^verbatim>\<open>startTime=250\<close> and no \<^verbatim>\<open>endTime\<close> on the
  scenario store returns both records of A, the one at 100 included.
\<close>

theorem one_time_bound_falls_through_witness:
  "GET (Env (Some scenario_db))
     \<lparr>q_deviceId = Some ''A'', q_limit = None, q_startTime = Some ''250'', q_endTime = None\<rparr> =
   (\<lparr>status = 200,
     body = LatestResult [stored_row 2 ''A'' 300, stored_row 1 ''A'' 100] ''A'' (Some 10) 2\<rparr>,
    Env (Some (logged StmtAll scenario_db))) \<and>
   GET (Env (Some scenario_db))
     \<lparr>q_deviceId = Some ''A'', q_limit = None, q_startTime = Some ''250'', q_endTime = None\<rparr> =
   GET (Env (Some scenario_db))
     \<lparr>q_deviceId = Some ''A'', q_limit = None, q_startTime = None, q_endTime = None\<rparr>"
proof -
  let ?req = "\<lparr>q_deviceId = Some ''A'', q_limit = None, q_startTime = Some ''250'',
               q_endTime = None\<rparr>"
  have lim: "limit_of ?req = Some 10 \<and> - (2 ^ 63) \<le> (10::int) \<and> (10::int) < 2 ^ 63"
    by (simp add: limit_of_def parseInt_10)
  have dat: "getLatestData scenario_db ''A'' (Some 10) =
               (Inr [stored_row 2 ''A'' 300, stored_row 1 ''A'' 100], logged StmtAll scenario_db)"
    by (simp add: getLatestData_def scenario_latest_A sql_limit_def int64_def)
  have d: "q_deviceId ?req = Some ''A''" and ne: "''A'' \<noteq> []"
    and tb: "\<not> (truthy_param (q_startTime ?req) \<and> truthy_param (q_endTime ?req))"
    by simp_all
  note t = one_time_bound_falls_through[OF d ne tb, of "Env (Some scenario_db)" scenario_db]
  from t lim have "\<exists>data. getLatestData scenario_db ''A'' (Some 10) =
                           (Inr data, logged StmtAll scenario_db) \<and>
                GET (Env (Some scenario_db)) ?req =
                  (\<lparr>status = 200, body = LatestResult data ''A'' (Some 10) (length data)\<rparr>,
                   Env (Some (logged StmtAll scenario_db)))"
    by blast
  with dat have r: "GET (Env (Some scenario_db)) ?req =
     (\<lparr>status = 200,
       body = LatestResult [stored_row 2 ''A'' 300, stored_row 1 ''A'' 100] ''A'' (Some 10) 2\<rparr>,
      Env (Some (logged StmtAll scenario_db)))"
    by auto
  from t have "GET (Env (Some scenario_db)) ?req =
     GET (Env (Some scenario_db))
       \<lparr>q_deviceId = Some ''A'', q_limit = None, q_startTime = None, q_endTime = None\<rparr>"
    by simp
  with r show ?thesis
    by blast
qed

section \<open>Database unavailable\<close>

text \<open>
  C10. While the database binding is unavailable (no Cloudflare environment, or an
  environment without \<^verbatim>\<open>DB\<close>), every write and every read request is answered with
  status 500 and the message "Database not available". For a write this holds whatever
  the body is (unparsable, null, or a sample that would fail the validation), since the
  binding is tested before the body is read; the environment is returned as it was.
\<close>

theorem database_not_available:
  "POST NoContext rb =
     (\<lparr>status = 500, body = ErrorBody ''Database not available'' None\<rparr>, NoContext) \<and>
   POST (Env None) rb =
     (\<lparr>status = 500, body = ErrorBody ''Database not available'' None\<rparr>, Env None) \<and>
   GET NoContext req =
     (\<lparr>status = 500, body = ErrorBody ''Database not available'' None\<rparr>, NoContext) \<and>
   GET (Env None) req =
     (\<lparr>status = 500, body = ErrorBody ''Database not available'' None\<rparr>, Env None)"
  by (simp add: POST_def GET_def db_unavailable_def)

end
